theory Spec2Isabelle
  imports Complex_Main "HOL-Library.Log_Nat"
begin

section \<open>Template helpers of \<open>sentry/templatetags/sentry_helpers.py\<close>\<close>

text \<open>
  The module is Python 2 code (\<open>from urllib import quote\<close>, \<open>six.moves.range\<close>).
  Its formatting helpers are pure functions of their arguments; each is embedded below
  under its own name.  What the helpers take from outside the module is a parameter of
  the embedding:
  \<^item> \<open>tr\<close> stands for \<open>ugettext\<close> (written \<open>_\<close> in the source), the translation of
    a fixed phrase;
  \<^item> \<open>to_unicode\<close> and \<open>escape\<close> are \<open>sentry.utils.to_unicode\<close> and
    \<open>django.utils.html.escape\<close>;
  \<^item> \<open>dj_timesince\<close> is \<open>django.template.defaultfilters.timesince\<close>, and
    \<open>clock\<close> is the value of \<open>timezone.now()\<close>.
\<close>

subsection \<open>Python values\<close>

text \<open>
  The count given to \<open>small_count\<close> is an integer or \<open>None\<close>: \<open>int option\<close>.  It is
  falsy when it is \<open>None\<close> or \<open>0\<close>.  \<open>small_count\<close> returns an integer on some paths
  and a string on others, \<open>timesince\<close> a string or a date; \<open>pyval\<close> keeps them apart,
  as Python does (\<open>0 == "0"\<close> is false).
\<close>

datatype pyval = PInt int | PStr string | PDate int

datatype py_error = OverflowError | ValueError

definition truthy :: "int option \<Rightarrow> bool" where
  "truthy v = (case v of None \<Rightarrow> False | Some i \<Rightarrow> i \<noteq> 0)"

text \<open>
  \<open>duration\<close> and \<open>percent\<close> do float arithmetic on their arguments and take any
  number: an integer, or a float, which is given by the rational it stands for (a
  finite float; see the section on floating point).  A number is falsy when it is zero,
  and \<open>None\<close> is falsy.
\<close>

datatype number = PyInt int | PyFloat rat

fun nonzero :: "number \<Rightarrow> bool" where
  "nonzero (PyInt i) = (i \<noteq> 0)"
| "nonzero (PyFloat x) = (x \<noteq> 0)"

definition is_true :: "number option \<Rightarrow> bool" where
  "is_true v = (case v of None \<Rightarrow> False | Some n \<Rightarrow> nonzero n)"

text \<open>The rational that a number stands for.\<close>

fun num_value :: "number \<Rightarrow> rat" where
  "num_value (PyInt i) = of_int i"
| "num_value (PyFloat x) = x"

subsection \<open>Integers as decimal text\<close>

definition digit_char :: "nat \<Rightarrow> char" where
  "digit_char d = ''0123456789'' ! d"

fun digits_of :: "nat \<Rightarrow> string" where
  "digits_of n = (if n < 10 then [digit_char n] else digits_of (n div 10) @ [digit_char (n mod 10)])"

declare digits_of.simps [simp del]

text \<open>\<open>str(i)\<close> and \<open>'%d' % i\<close> for an integer \<open>i\<close>.\<close>

definition str_int :: "int \<Rightarrow> string" where
  "str_int i = (if i < 0 then CHR ''-'' # digits_of (nat (- i)) else digits_of (nat i))"

subsection \<open>Floating point\<close>

text \<open>
  A Python float is an IEEE 754 binary64 number.  Every finite one is a rational, and an
  arithmetic operation returns the exact result rounded to the nearest representable
  number, ties to the even significand.  \<open>fl\<close> is that rounding: the significand has
  53 bits, so a number with binary exponent \<open>e\<close> is rounded to a multiple of
  \<open>2 ^ (e - 52)\<close>, and to a multiple of \<open>2 ^ - 1074\<close> in the subnormal range.  A result
  of magnitude \<open>2 ^ 1024\<close> or more is an infinity on the machine; \<open>overflows\<close> tests
  for it where the code can reach it.
\<close>

definition pow2 :: "int \<Rightarrow> rat" where
  "pow2 e = (if 0 \<le> e then 2 ^ nat e else 1 / 2 ^ nat (- e))"

definition round_half_even :: "rat \<Rightarrow> int" where
  "round_half_even x =
     (let f = \<lfloor>x\<rfloor>; d = x - of_int f
      in if d < 1 / 2 then f else if 1 / 2 < d then f + 1 else if even f then f else f + 1)"

definition binary_exponent :: "rat \<Rightarrow> int" where
  "binary_exponent x =
     (let (p, q) = quotient_of \<bar>x\<bar>; e = bitlen p - bitlen q
      in if pow2 e \<le> \<bar>x\<bar> then e else e - 1)"

definition fl :: "rat \<Rightarrow> rat" where
  "fl x = (if x = 0 then 0
           else let u = pow2 (max (binary_exponent x - 52) (- 1074))
                in of_int (round_half_even (x / u)) * u)"

definition overflows :: "rat \<Rightarrow> bool" where
  "overflows x = (2 ^ 1024 \<le> \<bar>x\<bar>)"

text \<open>
  \<open>float(i)\<close>, and the conversion of an integer operand of a float operation:
  \<open>OverflowError\<close> when the integer is too large for a float.
\<close>

definition float_of_int :: "int \<Rightarrow> py_error + rat" where
  "float_of_int i = (let x = fl (of_int i) in if overflows x then Inl OverflowError else Inr x)"

text \<open>
  A number as the float operand of an operation, and \<open>float(n)\<close>: an integer is
  converted, a float is itself.
\<close>

fun to_float :: "number \<Rightarrow> py_error + rat" where
  "to_float (PyInt i) = float_of_int i"
| "to_float (PyFloat x) = Inr x"

definition fdiv :: "rat \<Rightarrow> rat \<Rightarrow> rat" where
  "fdiv a b = fl (a / b)"

definition fmul :: "rat \<Rightarrow> rat \<Rightarrow> rat" where
  "fmul a b = fl (a * b)"

text \<open>\<open>int(x)\<close> of a float, also what \<open>'%d' % x\<close> prints: truncation toward zero.\<close>

definition trunc :: "rat \<Rightarrow> int" where
  "trunc x = (if 0 \<le> x then \<lfloor>x\<rfloor> else \<lceil>x\<rceil>)"


text \<open>
  \<open>a % b\<close> on floats: the C \<open>fmod\<close>, which is exact and has the sign of \<open>a\<close>,
  moved by \<open>b\<close> when its sign differs from that of \<open>b\<close>.
\<close>

definition py_fmod :: "rat \<Rightarrow> rat \<Rightarrow> rat" where
  "py_fmod a b =
     (let m = a - b * of_int (trunc (a / b))
      in if m \<noteq> 0 \<and> (b < 0) \<noteq> (m < 0) then fl (m + b) else m)"

text \<open>
  \<open>'%.df' % x\<close>: the exact value of the float rounded to \<open>d\<close> decimals, ties to
  even; no point when \<open>d = 0\<close>.
\<close>

definition zero_pad :: "nat \<Rightarrow> string \<Rightarrow> string" where
  "zero_pad d s = replicate (d - length s) CHR ''0'' @ s"

definition format_f :: "nat \<Rightarrow> rat \<Rightarrow> string" where
  "format_f d x =
     (let n = nat (round_half_even (\<bar>x\<bar> * 10 ^ d))
      in (if x < 0 then ''-'' else '''') @ digits_of (n div 10 ^ d)
         @ (if d = 0 then '''' else ''.'' @ zero_pad d (digits_of (n mod 10 ^ d))))"

definition format_d :: "rat \<Rightarrow> string" where
  "format_d x = str_int (trunc x)"

subsection \<open>\<open>small_count\<close>\<close>

text \<open>
  The loop over the table \<open>z\<close> of divisors and units.  \<open>divmod\<close> is floor division,
  as \<open>div\<close> and \<open>mod\<close> on \<open>int\<close> are; the source's \<open>o\<close> is \<open>q\<close> here.  In the
  branch that divides as floats the quotient has at most two characters, so \<open>v\<close> lies
  between \<open>- 10 ^ 10\<close> and \<open>10 ^ 11\<close> and its conversion to a float cannot overflow.
\<close>

fun small_count_loop :: "int \<Rightarrow> (int \<times> string) list \<Rightarrow> pyval" where
  "small_count_loop v [] = PInt v"
| "small_count_loop v ((x, y) # z) =
     (let q = v div x; p = v mod x
      in if q \<noteq> 0
         then (if 2 < length (str_int q) \<or> p = 0
               then PStr (str_int q @ y)
               else PStr (format_f 1 (fdiv (fl (of_int v)) (fl (of_int x))) @ y))
         else small_count_loop v z)"

definition small_count :: "(string \<Rightarrow> string) \<Rightarrow> int option \<Rightarrow> pyval" where
  "small_count tr v =
     (if \<not> truthy v then PInt 0
      else small_count_loop (the v)
             [(1000000000, tr ''b''), (1000000, tr ''m''), (1000, tr ''k'')])"

subsection \<open>\<open>duration\<close>\<close>

text \<open>
  \<open>value\<close> is in milliseconds, an integer or a float.  \<open>value / 1000.0\<close> converts
  an integer to a float and divides; from there on \<open>value\<close>, \<open>hours\<close>, \<open>minutes\<close>
  and \<open>seconds\<close> are floats (\<open>hours\<close> and \<open>minutes\<close> start as the integer \<open>0\<close>).
  \<open>output\<close> is the list the source appends to and joins with the empty string.
\<close>

definition duration :: "number option \<Rightarrow> py_error + string" where
  "duration value =
     (if \<not> is_true value then Inr ''0s''
      else case to_float (the value) of
             Inl e \<Rightarrow> Inl e
           | Inr f \<Rightarrow>
               (let value = fdiv f 1000;
                    (hours, value) =
                       (if 3600 < value then (fdiv value 3600, py_fmod value 3600) else (0, value));
                    (minutes, value) =
                       (if 60 < value then (fdiv value 60, py_fmod value 60) else (0, value));
                    seconds = value;
                    output = [];
                    output = (if hours \<noteq> 0 then output @ [format_d hours @ ''h''] else output);
                    output = (if minutes \<noteq> 0 then output @ [format_d minutes @ ''m''] else output);
                    output = (if 1 < seconds then output @ [format_f 2 seconds @ ''s'']
                              else if seconds \<noteq> 0
                                   then output @ [format_d (fmul seconds 1000) @ ''ms'']
                                   else output)
                in Inr (concat output)))"

subsection \<open>\<open>percent\<close>\<close>


subsection \<open>\<open>pprint\<close>\<close>









subsection \<open>\<open>timesince\<close>\<close>








section \<open>The claims as definitions\<close>

text \<open>
  The functions below follow the words of the specification, not the source; the
  theorems compare them with the functions above.
\<close>

subsection \<open>Compact numbers\<close>

text \<open>
  One divisor of the compact number formatter: the integer quotient with the unit when
  the quotient has more than two digits (is at least 100) or the remainder is zero,
  otherwise the float quotient with one decimal and the unit.
\<close>

definition abbreviated :: "int \<Rightarrow> int \<Rightarrow> string \<Rightarrow> pyval" where
  "abbreviated v x unit =
     (if 100 \<le> v div x \<or> v mod x = 0 then PStr (str_int (v div x) @ unit)
      else PStr (format_f 1 (fdiv (fl (of_int v)) (fl (of_int x))) @ unit))"

text \<open>The divisors largest first; the value itself when every quotient is zero.\<close>

definition small_count_spec :: "(string \<Rightarrow> string) \<Rightarrow> int \<Rightarrow> pyval" where
  "small_count_spec tr v =
     (if v div 1000000000 \<noteq> 0 then abbreviated v 1000000000 (tr ''b'')
      else if v div 1000000 \<noteq> 0 then abbreviated v 1000000 (tr ''m'')
      else if v div 1000 \<noteq> 0 then abbreviated v 1000 (tr ''k'')
      else PInt v)"

subsection \<open>Durations\<close>

text \<open>
  The hour, minute and second components of a number of seconds: hours above 3600
  seconds, minutes above 60 seconds of the remainder, and the leftover seconds.
\<close>

definition split_seconds :: "rat \<Rightarrow> rat \<times> rat \<times> rat" where
  "split_seconds s =
     (let hours = (if 3600 < s then fdiv s 3600 else 0);
          s = (if 3600 < s then py_fmod s 3600 else s);
          minutes = (if 60 < s then fdiv s 60 else 0);
          s = (if 60 < s then py_fmod s 60 else s)
      in (hours, minutes, s))"

definition hours_text :: "rat \<Rightarrow> string" where
  "hours_text h = (if h \<noteq> 0 then format_d h @ ''h'' else [])"

definition minutes_text :: "rat \<Rightarrow> string" where
  "minutes_text m = (if m \<noteq> 0 then format_d m @ ''m'' else [])"

text \<open>
  The seconds component as the specification writes it, the milliseconds formatted
  with \<open>.0f\<close>, which rounds to the nearest integer.
\<close>

definition seconds_text_claimed :: "rat \<Rightarrow> string" where
  "seconds_text_claimed s =
     (if 1 < s then format_f 2 s @ ''s''
      else if 0 < s then format_f 0 (fmul s 1000) @ ''ms''
      else [])"

text \<open>
  The seconds component with the milliseconds truncated, as \<open>%d\<close> prints them: for
  leftover seconds that are not greater than 1 and not zero.
\<close>

definition seconds_text :: "rat \<Rightarrow> string" where
  "seconds_text s =
     (if 1 < s then format_f 2 s @ ''s''
      else if s \<noteq> 0 then format_d (fmul s 1000) @ ''ms''
      else [])"

text \<open>
  The duration formatter of the specification, for a given rendering of the seconds
  component: \<open>0s\<close> for a falsy input, otherwise the non-zero components one after the
  other.  An integer too large for a float has no seconds to split.
\<close>

definition duration_with :: "(rat \<Rightarrow> string) \<Rightarrow> number option \<Rightarrow> py_error + string" where
  "duration_with render value =
     (if \<not> is_true value then Inr ''0s''
      else case to_float (the value) of
             Inl e \<Rightarrow> Inl e
           | Inr f \<Rightarrow>
               (case split_seconds (fdiv f 1000) of
                  (h, m, s) \<Rightarrow> Inr (hours_text h @ minutes_text m @ render s)))"

subsection \<open>Soft wrapping\<close>



subsection \<open>Relative time\<close>




section \<open>Properties\<close>

subsection \<open>Decimal text\<close>

lemma length_digits_of_pos: "0 < length (digits_of n)"
  by (subst digits_of.simps) simp

lemma length_digits_of_small: "n < 10 \<Longrightarrow> length (digits_of n) = 1"
  by (subst digits_of.simps) simp

lemma length_digits_of_two: "10 \<le> n \<Longrightarrow> n < 100 \<Longrightarrow> length (digits_of n) = 2"
  by (subst digits_of.simps) (simp add: length_digits_of_small)

lemma length_digits_of_three: "100 \<le> n \<Longrightarrow> 2 < length (digits_of n)"
proof -
  assume h: "100 \<le> n"
  then have "10 \<le> n div 10" by simp
  then have "digits_of (n div 10) = digits_of (n div 10 div 10) @ [digit_char (n div 10 mod 10)]"
    by (subst digits_of.simps) simp
  moreover have "digits_of n = digits_of (n div 10) @ [digit_char (n mod 10)]"
    using h by (subst digits_of.simps) simp
  ultimately show ?thesis
    using length_digits_of_pos [of "n div 10 div 10"] by simp
qed

lemma more_than_two_digits: "2 < length (digits_of n) \<longleftrightarrow> 100 \<le> n"
proof (cases "n < 10")
  case True
  then show ?thesis by (simp add: length_digits_of_small)
next
  case False
  then show ?thesis
    using length_digits_of_two [of n] length_digits_of_three [of n]
    by (cases "n < 100") auto
qed

lemma more_than_two_chars: "0 \<le> q \<Longrightarrow> 2 < length (str_int q) \<longleftrightarrow> 100 \<le> q"
  by (auto simp: str_int_def more_than_two_digits)

subsection \<open>\<open>small_count\<close>\<close>

lemma small_count_loop_step:
  "0 < v \<Longrightarrow> 0 < x \<Longrightarrow>
   small_count_loop v ((x, y) # z) =
     (if v div x \<noteq> 0 then abbreviated v x y else small_count_loop v z)"
  by (simp add: Let_def abbreviated_def more_than_two_chars pos_imp_zdiv_nonneg_iff)

text \<open>
  C4.  For every positive integer the loop of \<open>small_count\<close> does what the
  specification says: it tries 1,000,000,000, then 1,000,000, then 1,000, and at the
  first divisor with a non-zero quotient returns the quotient with the unit when the
  quotient has more than two digits or the remainder is zero, and the float quotient
  with one decimal and the unit otherwise; the value comes back unchanged when every
  quotient is zero.  1500 gives \<open>1.5k\<close>, 150000 gives \<open>150k\<close> and 999 is returned as
  the integer 999.
\<close>

theorem small_count_abbreviates:
  "(0 < v \<longrightarrow> small_count tr (Some v) = small_count_spec tr v)
   \<and> small_count tr (Some 1500) = PStr (''1.5'' @ tr ''k'')
   \<and> small_count tr (Some 150000) = PStr (''150'' @ tr ''k'')
   \<and> small_count tr (Some 999) = PInt 999"
proof -
  have general: "0 < v \<longrightarrow> small_count tr (Some v) = small_count_spec tr v"
    by (simp add: small_count_def truthy_def small_count_spec_def small_count_loop_step
          del: small_count_loop.simps(2))
  have a: "small_count tr (Some 1500) = PStr (''1.5'' @ tr ''k'')" by code_simp
  have b: "small_count tr (Some 150000) = PStr (''150'' @ tr ''k'')" by code_simp
  have c: "small_count tr (Some 999) = PInt 999" by code_simp
  from general a b c show ?thesis by blast
qed

text \<open>The theorem at 1250, where the float quotient 1.25 is a tie and rounds to even.\<close>

theorem small_count_abbreviates_witness:
  "(0::int) < 1250 \<and> small_count id (Some 1250) = PStr ''1.2k''"
proof -
  have "small_count_spec id 1250 = PStr ''1.2k''" by code_simp
  with small_count_abbreviates [of 1250 id] show ?thesis by simp
qed

text \<open>
  C2 as stated fails: the quotient of 2500000000 by 1,000,000,000 is 2, which has one
  digit, and the remainder 500000000 is not zero, so the code takes the branch with one
  decimal.
\<close>

theorem small_count_2500000000_counterexample:
  "small_count id (Some 2500000000) \<noteq> PStr ''2b''"
  by code_simp

text \<open>
  C2, amended.  The compact number formatter applied to 2500000000 returns the string
  \<open>2.5b\<close> (the unit as translated).
\<close>

theorem small_count_2500000000:
  "small_count tr (Some 2500000000) = PStr (''2.5'' @ tr ''b'')"
  by code_simp

text \<open>C9 as stated fails: for 0 the code returns the integer 0, not a string.\<close>

theorem small_count_zero_counterexample:
  "small_count id (Some 0) \<noteq> PStr ''0''"
  by code_simp

text \<open>
  C9, amended.  The compact number formatter applied to 0 or to an unset input returns
  the integer 0.
\<close>

theorem small_count_falsy:
  "small_count tr None = PInt 0 \<and> small_count tr (Some 0) = PInt 0"
  by (simp add: small_count_def truthy_def)

subsection \<open>Floats that are not negative\<close>

lemma pow2_pos: "0 < pow2 e"
  by (simp add: pow2_def)

lemma round_half_even_nonneg: "0 \<le> x \<Longrightarrow> 0 \<le> round_half_even x"
  by (simp add: round_half_even_def Let_def)

lemma fl_nonneg: "0 \<le> x \<Longrightarrow> 0 \<le> fl x"
proof -
  assume x: "0 \<le> x"
  define u where "u = pow2 (max (binary_exponent x - 52) (- 1074))"
  have u: "0 < u" by (simp add: u_def pow2_pos)
  then have "0 \<le> x / u" using x by simp
  then have "0 \<le> round_half_even (x / u)" by (rule round_half_even_nonneg)
  then have "0 \<le> of_int (round_half_even (x / u)) * u" using u by simp
  then show ?thesis by (simp add: fl_def Let_def u_def)
qed

lemma py_fmod_nonneg:
  assumes "0 \<le> a" "0 < b"
  shows "0 \<le> py_fmod a b"
proof -
  have q: "0 \<le> a / b" using assms by simp
  have "of_int \<lfloor>a / b\<rfloor> \<le> a / b" by (rule of_int_floor_le)
  then have "of_int \<lfloor>a / b\<rfloor> * b \<le> a"
    by (simp only: pos_le_divide_eq [OF assms(2)])
  then have "b * of_int \<lfloor>a / b\<rfloor> \<le> a"
    by (simp only: mult.commute)
  then have "0 \<le> a - b * of_int (trunc (a / b))"
    using q by (simp add: trunc_def)
  then show ?thesis
    using assms(2) by (simp add: py_fmod_def Let_def)
qed

lemma float_of_int_nonneg: "0 \<le> v \<Longrightarrow> float_of_int v = Inr f \<Longrightarrow> 0 \<le> f"
  using fl_nonneg [of "of_int v"] by (simp add: float_of_int_def Let_def split: if_splits)

lemma to_float_nonneg: "0 \<le> num_value n \<Longrightarrow> to_float n = Inr f \<Longrightarrow> 0 \<le> f"
  by (cases n) (auto intro: float_of_int_nonneg)

subsection \<open>An integer out of the range of a float\<close>

lemma binary_exponent_big: "binary_exponent (2 ^ 1024) = 1024"
proof -
  define n :: int where "n = 2 ^ 1024"
  define x :: rat where "x = of_int n"
  have x: "x = 2 ^ 1024" by (simp add: x_def n_def)
  have a: "\<bar>x\<bar> = x" by (simp add: x)
  have q: "quotient_of x = (n, 1)" by (simp add: x_def)
  have b: "bitlen n = 1025" unfolding n_def using bitlen_twopow_add_eq [of 0 1024] by simp
  have c: "bitlen 1 = 1" by (simp add: bitlen_alt_def)
  have p: "pow2 1024 = x" by (simp add: pow2_def x)
  have "binary_exponent x = 1024"
    unfolding binary_exponent_def a q by (simp add: b c p Let_def)
  then show ?thesis by (simp add: x)
qed

lemma fl_big: "fl (2 ^ 1024) = 2 ^ 1024"
proof -
  have "(2 ^ 1024 :: rat) / 2 ^ 972 = 2 ^ 52" by (simp add: power_diff)
  moreover have "round_half_even (2 ^ 52) = 2 ^ 52"
    unfolding round_half_even_def Let_def by simp
  moreover have "(2 ^ 52 :: rat) * 2 ^ 972 = 2 ^ 1024" by (simp flip: power_add)
  ultimately show ?thesis
    unfolding fl_def Let_def binary_exponent_big by (simp add: pow2_def)
qed

lemma float_of_int_big: "float_of_int (2 ^ 1024) = Inl OverflowError"
  using fl_big by (simp add: float_of_int_def overflows_def Let_def)

subsection \<open>\<open>duration\<close>\<close>

lemma split_seconds_nonneg:
  assumes "0 \<le> x" "split_seconds x = (h, m, s)"
  shows "0 \<le> s"
proof -
  define y where "y = (if 3600 < x then py_fmod x 3600 else x)"
  have y: "0 \<le> y"
    using assms(1) by (simp add: y_def py_fmod_nonneg)
  have "s = (if 60 < y then py_fmod y 60 else y)"
    using assms(2) unfolding split_seconds_def Let_def y_def by simp
  then show ?thesis
    using y by (simp add: py_fmod_nonneg)
qed

lemma leftover_seconds_nonneg:
  assumes "0 \<le> num_value n" "to_float n = Inr f" "split_seconds (fdiv f 1000) = (h, m, s)"
  shows "0 \<le> s"
proof -
  have "0 \<le> f" using assms(1,2) by (rule to_float_nonneg)
  then have "0 \<le> fdiv f 1000" by (simp add: fdiv_def fl_nonneg)
  then show ?thesis using assms(3) by (rule split_seconds_nonneg)
qed

text \<open>The list \<open>output\<close> of the source, joined, is the three components in a row.\<close>

lemma duration_unfold:
  assumes "to_float n = Inr f" "nonzero n" "split_seconds (fdiv f 1000) = (h, m, s)"
  shows "duration (Some n) = Inr (hours_text h @ minutes_text m @ seconds_text s)"
proof -
  define x where "x = fdiv f 1000"
  define y where "y = (if 3600 < x then py_fmod x 3600 else x)"
  have h: "h = (if 3600 < x then fdiv x 3600 else 0)"
    and m: "m = (if 60 < y then fdiv y 60 else 0)"
    and s: "s = (if 60 < y then py_fmod y 60 else y)"
    using assms(3) unfolding split_seconds_def Let_def x_def y_def by simp_all
  have "duration (Some n) =
      Inr (concat ((if h \<noteq> 0 then [format_d h @ ''h''] else [])
         @ (if m \<noteq> 0 then [format_d m @ ''m''] else [])
         @ (if 1 < s then [format_f 2 s @ ''s'']
             else if s \<noteq> 0 then [format_d (fmul s 1000) @ ''ms''] else [])))"
    unfolding duration_def Let_def h m s y_def x_def
    using assms(1,2) by (simp add: is_true_def)
  then show ?thesis
    by (simp add: hours_text_def minutes_text_def seconds_text_def)
qed

lemma duration_eq_duration_with: "duration value = duration_with seconds_text value"
proof (cases "is_true value")
  case False
  then show ?thesis by (simp add: duration_def duration_with_def)
next
  case True
  then obtain n where n: "value = Some n" "nonzero n"
    by (cases "value") (auto simp add: is_true_def)
  show ?thesis
  proof (cases "to_float n")
    case (Inl e)
    then show ?thesis using n True by (simp add: duration_def duration_with_def)
  next
    case (Inr f)
    obtain h m s where sp: "split_seconds (fdiv f 1000) = (h, m, s)"
      by (cases "split_seconds (fdiv f 1000)") auto
    show ?thesis
      using duration_unfold [OF Inr n(2) sp] Inr n True sp
      by (simp add: duration_with_def)
  qed
qed

lemma duration_with_61000:
  "duration_with seconds_text (Some (PyInt 61000)) = Inr ''1m1000ms''"
  by code_simp

lemma duration_with_3661000:
  "duration_with seconds_text (Some (PyInt 3661000)) = Inr ''1h1m1000ms''"
  by code_simp

lemma duration_with_60001:
  "duration_with seconds_text (Some (PyInt 60001)) = Inr ''1m0ms''"
  by code_simp

lemma duration_claimed_60001:
  "duration_with seconds_text_claimed (Some (PyInt 60001)) = Inr ''1m1ms''"
  by code_simp

lemma duration_with_half:
  "duration_with seconds_text (Some (PyFloat (1999 / 2))) = Inr ''999ms''"
  by code_simp

lemma duration_claimed_half:
  "duration_with seconds_text_claimed (Some (PyFloat (1999 / 2))) = Inr ''1000ms''"
  by code_simp

text \<open>
  C1 as stated fails: the leftover of 61000 ms is exactly one second, which is not
  greater than 1, so the code prints it in the milliseconds branch.
\<close>

theorem duration_one_second_counterexample:
  "duration (Some (PyInt 61000)) \<noteq> Inr ''1m1.00s''"
  using duration_eq_duration_with [of "Some (PyInt 61000)"] duration_with_61000 by simp

text \<open>
  C1, amended.  For 61000 milliseconds the duration formatter returns \<open>1m1000ms\<close> and
  for 3661000 milliseconds \<open>1h1m1000ms\<close>: a leftover of exactly one second is printed as
  1000 milliseconds.
\<close>

theorem duration_one_second:
  "duration (Some (PyInt 61000)) = Inr ''1m1000ms''
   \<and> duration (Some (PyInt 3661000)) = Inr ''1h1m1000ms''"
  using duration_eq_duration_with [of "Some (PyInt 61000)"]
    duration_eq_duration_with [of "Some (PyInt 3661000)"]
    duration_with_61000 duration_with_3661000
  by simp

text \<open>
  C5 as stated fails on the milliseconds, which \<open>%d\<close> truncates and \<open>.0f\<close> would
  round.  At the integer 60001 the leftover seconds times 1000 are a float just below
  1: the code prints 0 and \<open>.0f\<close> gives 1.  At the float 999.5 the code prints 999 and
  \<open>.0f\<close> gives 1000.
\<close>

theorem duration_milliseconds_counterexample:
  "duration (Some (PyInt 60001)) = Inr ''1m0ms''
   \<and> duration_with seconds_text_claimed (Some (PyInt 60001)) = Inr ''1m1ms''
   \<and> duration (Some (PyFloat (1999 / 2))) = Inr ''999ms''
   \<and> duration_with seconds_text_claimed (Some (PyFloat (1999 / 2))) = Inr ''1000ms''"
  using duration_eq_duration_with [of "Some (PyInt 60001)"]
    duration_eq_duration_with [of "Some (PyFloat (1999 / 2))"]
    duration_with_60001 duration_claimed_60001 duration_with_half duration_claimed_half
  by simp

text \<open>
  C5, amended.  For every duration input, \<open>None\<close>, an integer or a float of any sign:
  a falsy input gives \<open>0s\<close>, and an integer too large for a float raises
  \<open>OverflowError\<close>.  For every other input the output is the non-zero hour, minute and
  second components one after the other, the seconds as \<open>%0.2fs\<close> when the leftover
  seconds are greater than 1, as \<open>%dms\<close> of the seconds times 1000, truncated toward
  zero, when they are not greater than 1 and not zero, and left out when zero.  The
  leftover seconds of an input that is not negative are not negative, so that they are
  printed as milliseconds when positive but not greater than 1.
\<close>

theorem duration_components:
  "duration value = duration_with seconds_text value
   \<and> (\<not> is_true value \<longrightarrow> duration value = Inr ''0s'')
   \<and> (is_true value \<and> to_float (the value) = Inl e \<longrightarrow> duration value = Inl OverflowError)
   \<and> (is_true value \<and> to_float (the value) = Inr f
        \<and> split_seconds (fdiv f 1000) = (h, m, s)
      \<longrightarrow> duration value = Inr (hours_text h @ minutes_text m @ seconds_text s)
          \<and> (0 \<le> num_value (the value) \<longrightarrow> 0 \<le> s))"
proof -
  have a: "duration value = duration_with seconds_text value"
    by (rule duration_eq_duration_with)
  have b: "\<not> is_true value \<longrightarrow> duration value = Inr ''0s''"
    by (simp add: duration_def)
  have c: "is_true value \<and> to_float (the value) = Inl e
      \<longrightarrow> duration value = Inl OverflowError"
  proof
    assume t: "is_true value \<and> to_float (the value) = Inl e"
    then obtain n where n: "value = Some n" by (cases "value") (auto simp add: is_true_def)
    with t have "to_float n = Inl e" by simp
    then have "e = OverflowError"
      by (cases n) (auto simp add: float_of_int_def Let_def split: if_splits)
    with t show "duration value = Inl OverflowError" by (simp add: duration_def)
  qed
  have d: "is_true value \<and> to_float (the value) = Inr f
        \<and> split_seconds (fdiv f 1000) = (h, m, s)
      \<longrightarrow> duration value = Inr (hours_text h @ minutes_text m @ seconds_text s)
          \<and> (0 \<le> num_value (the value) \<longrightarrow> 0 \<le> s)"
  proof
    assume t: "is_true value \<and> to_float (the value) = Inr f
        \<and> split_seconds (fdiv f 1000) = (h, m, s)"
    then obtain n where n: "value = Some n" "nonzero n"
      by (cases "value") (auto simp add: is_true_def)
    from t n have f: "to_float n = Inr f" and sp: "split_seconds (fdiv f 1000) = (h, m, s)"
      by simp_all
    have "duration (Some n) = Inr (hours_text h @ minutes_text m @ seconds_text s)"
      using f n(2) sp by (rule duration_unfold)
    moreover have "0 \<le> num_value n \<longrightarrow> 0 \<le> s"
      using leftover_seconds_nonneg [OF _ f sp] by blast
    ultimately show "duration value = Inr (hours_text h @ minutes_text m @ seconds_text s)
          \<and> (0 \<le> num_value (the value) \<longrightarrow> 0 \<le> s)"
      using n by simp
  qed
  from a b c d show ?thesis by blast
qed

text \<open>
  The theorem at \<open>None\<close>, at an integer too large for a float and at the float 1500.5,
  which is one second and a half.
\<close>

theorem duration_components_witness:
  "\<not> is_true None \<and> duration None = Inr ''0s''
   \<and> is_true (Some (PyInt (2 ^ 1024))) \<and> to_float (PyInt (2 ^ 1024)) = Inl OverflowError
   \<and> duration (Some (PyInt (2 ^ 1024))) = Inl OverflowError
   \<and> is_true (Some (PyFloat (3001 / 2))) \<and> to_float (PyFloat (3001 / 2)) = Inr (3001 / 2)
   \<and> split_seconds (fdiv (3001 / 2) 1000) = (0, 0, fdiv (3001 / 2) 1000)
   \<and> (0::rat) \<le> num_value (PyFloat (3001 / 2)) \<and> 0 \<le> fdiv (3001 / 2) 1000
   \<and> duration (Some (PyFloat (3001 / 2))) = Inr ''1.50s''"
proof -
  have n: "\<not> is_true None" by (simp add: is_true_def)
  have i: "is_true (Some (PyInt (2 ^ 1024)))" by (simp add: is_true_def)
  have o: "to_float (PyInt (2 ^ 1024)) = Inl OverflowError"
    using float_of_int_big by simp
  have t: "is_true (Some (PyFloat (3001 / 2)))" by (simp add: is_true_def)
  have sp: "split_seconds (fdiv (3001 / 2) 1000) = (0, 0, fdiv (3001 / 2) 1000)"
    by code_simp
  have r: "hours_text 0 @ minutes_text 0 @ seconds_text (fdiv (3001 / 2) 1000) = ''1.50s''"
    by code_simp
  have a: "duration None = Inr ''0s''"
    using duration_components [of None, THEN conjunct2, THEN conjunct1] n by simp
  have "is_true (Some (PyInt (2 ^ 1024)))
      \<and> to_float (the (Some (PyInt (2 ^ 1024)))) = Inl OverflowError
    \<longrightarrow> duration (Some (PyInt (2 ^ 1024))) = Inl OverflowError"
    by (rule duration_components [THEN conjunct2, THEN conjunct2, THEN conjunct1])
  with i o have b: "duration (Some (PyInt (2 ^ 1024))) = Inl OverflowError"
    by simp
  have c: "duration (Some (PyFloat (3001 / 2))) = Inr ''1.50s''
      \<and> 0 \<le> fdiv (3001 / 2) 1000"
    using duration_components [of "Some (PyFloat (3001 / 2))" _ "3001 / 2" 0 0
        "fdiv (3001 / 2) 1000", THEN conjunct2, THEN conjunct2, THEN conjunct2] t sp r
    by simp
  from n i o t sp a b c show ?thesis by simp
qed

subsection \<open>\<open>percent\<close>\<close>








subsection \<open>\<open>pprint\<close>\<close>












subsection \<open>\<open>timesince\<close>\<close>












end
